theory Spec2Isabelle
  imports Main
begin

section \<open>Rasters and datasets\<close>

text \<open>
  A dataset is the ordered collection of its data variables (bands), each a 2-D grid of
  pixel values (rows along latitude). Pixel values are integers; the nodata sentinel is
  -9999. The order of the association list is the iteration order of
  \<^verbatim>\<open>list(dataset.data_vars)\<close>. Every Python exception is a value of \<open>py_error\<close>.
  Boolean-mask indexing is modelled for grids of one shape; a mask whose shape differs
  from the indexed grid raises, as numpy does.
\<close>

datatype py_error = KeyError | AttributeError | IndexError | ValueError | TypeError | OSError |
  DoesNotExistError

type_synonym grid = "int list list"
type_synonym mask = "bool list list"
type_synonym dataset = "(string \<times> grid) list"

definition nodata :: int where
  "nodata = - 9999"

definition bind_err :: "'e + 'a \<Rightarrow> ('a \<Rightarrow> 'e + 'b) \<Rightarrow> 'e + 'b" where
  "bind_err m f = (case m of Inl e \<Rightarrow> Inl e | Inr x \<Rightarrow> f x)"

definition shape :: "'a list list \<Rightarrow> nat list" where
  "shape g = map length g"

text \<open>\<^verbatim>\<open>dataset[key]\<close> raises KeyError, \<^verbatim>\<open>dataset.ndvi\<close> raises AttributeError.\<close>

definition band :: "dataset \<Rightarrow> string \<Rightarrow> py_error + grid" where
  "band ds key = (case map_of ds key of None \<Rightarrow> Inl KeyError | Some g \<Rightarrow> Inr g)"

definition attr_band :: "dataset \<Rightarrow> string \<Rightarrow> py_error + grid" where
  "attr_band ds key = (case map_of ds key of None \<Rightarrow> Inl AttributeError | Some g \<Rightarrow> Inr g)"

definition set_band :: "string \<Rightarrow> grid \<Rightarrow> dataset \<Rightarrow> dataset" where
  "set_band key g ds = map (\<lambda>(k, h). if k = key then (k, g) else (k, h)) ds"

definition eq_mask :: "grid \<Rightarrow> int \<Rightarrow> mask" where
  "eq_mask g v = map (map (\<lambda>x. x = v)) g"

definition cmp_mask :: "(int \<Rightarrow> int \<Rightarrow> bool) \<Rightarrow> grid \<Rightarrow> grid \<Rightarrow> py_error + mask" where
  "cmp_mask rel a b =
     (if shape a = shape b then Inr (map2 (map2 rel) a b) else Inl ValueError)"

definition select_row :: "bool list \<Rightarrow> int list \<Rightarrow> int list \<Rightarrow> int list" where
  "select_row m t s = map (\<lambda>(c, x, y). if c then y else x) (zip m (zip t s))"

text \<open>\<^verbatim>\<open>target[mask] = source[mask]\<close>: the source is indexed first, then the target.\<close>

definition masked_assign :: "mask \<Rightarrow> grid \<Rightarrow> grid \<Rightarrow> py_error + grid" where
  "masked_assign m target source =
     (if shape m \<noteq> shape source then Inl IndexError
      else if shape m \<noteq> shape target then Inl IndexError
      else Inr (map (\<lambda>(mr, tr, sr). select_row mr tr sr) (zip m (zip target source))))"

section \<open>Combination strategies\<close>

fun fill_loop :: "dataset \<Rightarrow> string list \<Rightarrow> dataset \<Rightarrow> py_error + dataset" where
  "fill_loop dataset [] dataset_out = Inr dataset_out"
| "fill_loop dataset (key # keys) dataset_out =
     bind_err (band dataset key) (\<lambda>src.
     bind_err (band dataset_out key) (\<lambda>tgt.
     bind_err (masked_assign (eq_mask tgt nodata) tgt src) (\<lambda>g.
       fill_loop dataset keys (set_band key g dataset_out))))"

definition fill_nodata :: "dataset \<Rightarrow> dataset option \<Rightarrow> py_error + dataset" where
  "fill_nodata dataset dataset_intermediate =
     (case dataset_intermediate of
        None \<Rightarrow> Inr dataset
      | Some cur \<Rightarrow> fill_loop dataset (map fst cur) cur)"

text \<open>
  The mask of \<open>max_value\<close> and \<open>min_value\<close> is computed inside the loop, from the ndvi
  band of \<open>dataset_out\<close> as it is at that iteration.
\<close>

fun value_loop ::
  "(int \<Rightarrow> int \<Rightarrow> bool) \<Rightarrow> dataset \<Rightarrow> string list \<Rightarrow> dataset \<Rightarrow> py_error + dataset" where
  "value_loop rel dataset [] dataset_out = Inr dataset_out"
| "value_loop rel dataset (key # keys) dataset_out =
     bind_err (band dataset key) (\<lambda>src.
     bind_err (attr_band dataset ''ndvi'') (\<lambda>n_new.
     bind_err (attr_band dataset_out ''ndvi'') (\<lambda>n_out.
     bind_err (cmp_mask rel n_new n_out) (\<lambda>m.
     bind_err (band dataset_out key) (\<lambda>tgt.
     bind_err (masked_assign m tgt src) (\<lambda>g.
       value_loop rel dataset keys (set_band key g dataset_out)))))))"

definition max_value :: "dataset \<Rightarrow> dataset option \<Rightarrow> py_error + dataset" where
  "max_value dataset dataset_intermediate =
     (case dataset_intermediate of
        None \<Rightarrow> Inr dataset
      | Some cur \<Rightarrow> value_loop (\<lambda>x y. x > y) dataset (map fst cur) cur)"

definition min_value :: "dataset \<Rightarrow> dataset option \<Rightarrow> py_error + dataset" where
  "min_value dataset dataset_intermediate =
     (case dataset_intermediate of
        None \<Rightarrow> Inr dataset
      | Some cur \<Rightarrow> value_loop (\<lambda>x y. x < y) dataset (map fst cur) cur)"

text \<open>Folding the list \<open>[a, b]\<close> from an empty intermediate.\<close>

definition fold_pair ::
  "(dataset \<Rightarrow> dataset option \<Rightarrow> py_error + dataset) \<Rightarrow> dataset \<Rightarrow> dataset \<Rightarrow> py_error + dataset" where
  "fold_pair f a b = bind_err (f a None) (\<lambda>i. f b (Some i))"

section \<open>Well-formed operands of the combination strategies\<close>

text \<open>
  \<open>compatible ds cur\<close>: the current intermediate has distinct band names and the new
  dataset carries every band of it, with the same shape. \<open>pick_grid\<close> is the pixel-wise
  choice a boolean mask makes between two grids of its shape.
\<close>

definition compatible :: "dataset \<Rightarrow> dataset \<Rightarrow> bool" where
  "compatible ds cur =
     (distinct (map fst cur) \<and>
      list_all (\<lambda>(k, g). case map_of ds k of None \<Rightarrow> False | Some d \<Rightarrow> shape d = shape g) cur)"

definition pick_grid :: "mask \<Rightarrow> grid \<Rightarrow> grid \<Rightarrow> grid" where
  "pick_grid m t s = map (\<lambda>(mr, tr, sr). select_row mr tr sr) (zip m (zip t s))"

definition fill_grid :: "grid \<Rightarrow> grid \<Rightarrow> grid" where
  "fill_grid cur new = pick_grid (eq_mask cur nodata) cur new"

text \<open>
  \<open>aligned a b\<close>: two datasets with the same distinct band names, ndvi the last of them,
  and every grid of one shape. \<open>value_strategy\<close> is the common body of \<open>max_value\<close> and
  \<open>min_value\<close>; \<open>value_result rel a b\<close> is the pixel-wise choice between \<open>a\<close> (current) and
  \<open>b\<close> (new) by the comparison of their ndvi bands.
\<close>

definition aligned :: "dataset \<Rightarrow> dataset \<Rightarrow> bool" where
  "aligned a b =
     (a \<noteq> [] \<and> map fst a = map fst b \<and> distinct (map fst a) \<and> last (map fst a) = ''ndvi'' \<and>
      list_all (\<lambda>(k, g). shape g = shape (snd (hd a))) (a @ b))"



section \<open>Chunk worker\<close>

text \<open>
  Acquisition dates are timestamps in seconds. The per-chunk acquisition metadata is the
  dictionary \<^verbatim>\<open>{date: {'clean_pixels': n}}\<close>, kept as an association list in insertion
  order. Raw scene data is a collection of bands indexed (time, latitude, longitude); the
  clean mask has the same three axes.
\<close>

type_synonym date = int
type_synonym acq_meta = "(date \<times> nat) list"
type_synonym grid3 = "int list list list"
type_synonym mask3 = "bool list list list"
type_synonym raw_data = "(string \<times> grid3) list"

definition base_temp_path :: string where
  "base_temp_path = ''/ui_results_temp/''"

definition measurements :: "string list" where
  "measurements = [''blue'', ''green'', ''red'', ''nir'', ''swir1'', ''swir2'', ''cf_mask'']"

text \<open>The value a chunk task hands back: a bare return, the string CANCEL, the pair
  \<^verbatim>\<open>[None, None]\<close>, or the pair of the scratch path and the metadata.\<close>

datatype task_value = NoneValue | CancelValue | EmptyTile | Tile string acq_meta

text \<open>\<^verbatim>\<open>Result.objects.get(query_id=...)\<close>: the row is gone, or it has a status.\<close>

datatype poll_result = DoesNotExist | Row string

record query =
  pk :: nat
  query_id :: string
  user_id :: string
  platform :: string
  product :: string
  query_type :: string
  compositor :: string
  complete :: bool

text \<open>
  One entry of the table \<open>processing_algorithms\<close>. The configured values of
  \<open>time_slices_per_iteration\<close> are 5, 1 and None, so the field is a natural number or None;
  \<open>geo_chunk_size\<close> is a float that only the external \<open>split_task\<close> reads and is left out.
\<close>

record processing_options =
  time_chunks :: "nat option"
  time_slices_per_iteration :: "nat option"
  reverse_time :: bool
  chunk_combination_method :: "dataset \<Rightarrow> dataset option \<Rightarrow> py_error + dataset"
  processing_method :: "raw_data \<Rightarrow> mask3 \<Rightarrow> dataset option \<Rightarrow> py_error + dataset"

text \<open>
  What a worker reads from outside: the ledger poll at its k-th cancellation check, the
  scene access (\<open>dc.get_dataset_by_extent\<close>, by product, platform, time range, longitude,
  latitude and measurements) and the mask derivation \<open>create_cfmask_clean_mask\<close>.
\<close>

record 'r worker_env =
  poll :: "nat \<Rightarrow> poll_result"
  get_dataset_by_extent ::
    "string \<Rightarrow> string \<Rightarrow> date \<times> date \<Rightarrow> 'r \<Rightarrow> 'r \<Rightarrow> string list \<Rightarrow> py_error + raw_data"
  create_cfmask_clean_mask :: "grid3 \<Rightarrow> mask3"

text \<open>The scratch file system: the existing per-query directories and the files in them.\<close>

record temp_fs =
  dirs :: "string list"
  files :: "(string \<times> dataset) list"

definition digit :: "nat \<Rightarrow> char" where
  "digit d = (if d = 0 then CHR ''0'' else if d = 1 then CHR ''1'' else if d = 2 then CHR ''2''
     else if d = 3 then CHR ''3'' else if d = 4 then CHR ''4'' else if d = 5 then CHR ''5''
     else if d = 6 then CHR ''6'' else if d = 7 then CHR ''7'' else if d = 8 then CHR ''8''
     else CHR ''9'')"

function str :: "nat \<Rightarrow> string" where
  "str n = (if n < 10 then [digit n] else str (n div 10) @ [digit (n mod 10)])"
  by pat_completeness auto
termination
  by (relation "measure id") auto

declare str.simps [simp del]

definition geo_chunk_path :: "string \<Rightarrow> nat \<Rightarrow> nat \<Rightarrow> string" where
  "geo_chunk_path qid time_num chunk_num =
     base_temp_path @ qid @ ''/geo_chunk_'' @ str time_num @ ''_'' @ str chunk_num @ ''.nc''"

text \<open>\<^verbatim>\<open>iteration_data.to_netcdf(geo_path)\<close> needs the query's scratch directory.\<close>

definition to_netcdf :: "dataset \<Rightarrow> string \<Rightarrow> string \<Rightarrow> temp_fs \<Rightarrow> py_error + temp_fs" where
  "to_netcdf d qid path fs =
     (if qid \<in> set (dirs fs)
      then Inr (fs\<lparr>files := (path, d) # filter (\<lambda>(p, _). p \<noteq> path) (files fs)\<rparr>)
      else Inl OSError)"

definition count_true :: "bool list list \<Rightarrow> nat" where
  "count_true m = sum_list (map (\<lambda>row. length (filter (\<lambda>b. b) row)) m)"

text \<open>
  \<^verbatim>\<open>if time not in acquisition_metadata: ... = 0\<close> followed by
  \<^verbatim>\<open>acquisition_metadata[time]['clean_pixels'] += clean_pixels\<close>.
\<close>

definition add_clean :: "date \<Rightarrow> nat \<Rightarrow> acq_meta \<Rightarrow> acq_meta" where
  "add_clean time clean_pixels acquisition_metadata =
     (let md = (if time \<in> fst ` set acquisition_metadata then acquisition_metadata
                else acquisition_metadata @ [(time, 0)])
      in map (\<lambda>(k, v). if k = time then (k, v + clean_pixels) else (k, v)) md)"

text \<open>The loop over the time slices of the clear mask; the index into the acquisition
  list raises when it is out of range.\<close>

fun tally_mask :: "date list \<Rightarrow> nat \<Rightarrow> mask3 \<Rightarrow> nat \<Rightarrow> acq_meta \<Rightarrow> py_error + acq_meta" where
  "tally_mask acquisition_list time_index [] timeslice md = Inr md"
| "tally_mask acquisition_list time_index (m # ms) timeslice md =
     (if time_index + timeslice < length acquisition_list
      then tally_mask acquisition_list time_index ms (Suc timeslice)
             (add_clean (acquisition_list ! (time_index + timeslice)) (count_true m) md)
      else Inl IndexError)"

text \<open>Python list indexing with an index that may be -1.\<close>

definition py_index :: "'a list \<Rightarrow> int \<Rightarrow> 'a" where
  "py_index xs i = (if i < 0 then xs ! nat (int (length xs) + i) else xs ! nat i)"

text \<open>The fetch window of one iteration; only evaluated with the cursor inside the list.\<close>

definition time_range :: "processing_options \<Rightarrow> date list \<Rightarrow> nat \<Rightarrow> date \<times> date" where
  "time_range opts acquisition_list time_index =
     (let start = (if reverse_time opts then acquisition_list ! time_index + 1
                   else acquisition_list ! time_index);
          tail_end = (if reverse_time opts then last acquisition_list
                      else last acquisition_list + 1);
          end = (case time_slices_per_iteration opts of
                   None \<Rightarrow> tail_end
                 | Some s \<Rightarrow>
                     if int time_index + int s - 1 < int (length acquisition_list)
                     then py_index acquisition_list (int time_index + int s - 1)
                     else tail_end)
      in if reverse_time opts then (end, start) else (start, end))"

text \<open>The cursor step: \<open>time_slices_per_iteration\<close>, or 10000 when it is None.\<close>

definition advance :: "processing_options \<Rightarrow> nat" where
  "advance opts = (case time_slices_per_iteration opts of None \<Rightarrow> 10000 | Some s \<Rightarrow> s)"

datatype loop_result = Early task_value | Exit "dataset option" acq_meta

text \<open>
  The while loop. The first argument bounds the number of iterations (the source loops
  forever when the step is 0 and the ledger never reports CANCEL); running out of it is
  \<open>None\<close>. \<open>k\<close> counts the cancellation checks made so far.
\<close>

fun chunk_loop ::
  "nat \<Rightarrow> 'r worker_env \<Rightarrow> processing_options \<Rightarrow> query \<Rightarrow> date list \<Rightarrow> 'r \<Rightarrow> 'r \<Rightarrow> string list \<Rightarrow>
   nat \<Rightarrow> nat \<Rightarrow> dataset option \<Rightarrow> acq_meta \<Rightarrow> (py_error + loop_result) option" where
  "chunk_loop fuel env opts q acquisition_list lat_range lon_range ms k time_index
       iteration_data md =
     (if time_index < length acquisition_list then
        (case fuel of
           0 \<Rightarrow> None
         | Suc fuel' \<Rightarrow>
            (case poll env k of
               DoesNotExist \<Rightarrow> Some (Inr (Early NoneValue))
             | Row status \<Rightarrow>
                 if status = ''CANCEL'' then Some (Inr (Early CancelValue))
                 else
                  (case get_dataset_by_extent env (product q) (platform q)
                          (time_range opts acquisition_list time_index) lon_range lat_range ms of
                     Inl e \<Rightarrow> Some (Inl e)
                   | Inr raw \<Rightarrow>
                      (case map_of raw ''cf_mask'' of
                         None \<Rightarrow>
                           chunk_loop fuel' env opts q acquisition_list lat_range lon_range ms
                             (Suc k) (time_index + advance opts) iteration_data md
                       | Some cf \<Rightarrow>
                          (let clear_mask = create_cfmask_clean_mask env cf in
                           case tally_mask acquisition_list time_index clear_mask 0 md of
                             Inl e \<Rightarrow> Some (Inl e)
                           | Inr md' \<Rightarrow>
                              (case processing_method opts
                                      (filter (\<lambda>(name, _). name \<noteq> ''cf_mask'') raw)
                                      clear_mask iteration_data of
                                 Inl e \<Rightarrow> Some (Inl e)
                               | Inr d \<Rightarrow>
                                   chunk_loop fuel' env opts q acquisition_list lat_range
                                     lon_range ms (Suc k) (time_index + advance opts)
                                     (Some d) md'))))))
      else Some (Inr (Exit iteration_data md)))"

declare chunk_loop.simps [simp del]

text \<open>What follows the loop: the early returns, the empty chunk, the scratch file.\<close>

definition finish_chunk ::
  "query \<Rightarrow> nat \<Rightarrow> nat \<Rightarrow> temp_fs \<Rightarrow> py_error + loop_result \<Rightarrow> (py_error + task_value) \<times> temp_fs" where
  "finish_chunk q time_num chunk_num fs r =
     (case r of
        Inl e \<Rightarrow> (Inl e, fs)
      | Inr (Early v) \<Rightarrow> (Inr v, fs)
      | Inr (Exit iteration_data md) \<Rightarrow>
         (case iteration_data of
            None \<Rightarrow> (Inr EmptyTile, fs)
          | Some d \<Rightarrow>
             (case to_netcdf d (query_id q) (geo_chunk_path (query_id q) time_num chunk_num) fs of
                Inl e \<Rightarrow> (Inl e, fs)
              | Inr fs' \<Rightarrow>
                 (Inr (Tile (geo_chunk_path (query_id q) time_num chunk_num) md), fs'))))"

definition generate_TOOL_chunk ::
  "nat \<Rightarrow> 'r worker_env \<Rightarrow> nat \<Rightarrow> nat \<Rightarrow> processing_options \<Rightarrow> query \<Rightarrow> date list \<Rightarrow> 'r \<Rightarrow> 'r \<Rightarrow>
   string list \<Rightarrow> temp_fs \<Rightarrow> ((py_error + task_value) \<times> temp_fs) option" where
  "generate_TOOL_chunk fuel env time_num chunk_num opts q acquisition_list lat_range lon_range
       ms fs =
     map_option (finish_chunk q time_num chunk_num fs)
       (chunk_loop fuel env opts q acquisition_list lat_range lon_range ms 0 0 None [])"

text \<open>The clean-pixel count a metadata dictionary holds for a date (0 when absent).\<close>

definition clean_of :: "acq_meta \<Rightarrow> date \<Rightarrow> nat" where
  "clean_of md d = (case map_of md d of None \<Rightarrow> 0 | Some n \<Rightarrow> n)"

definition obs_sum :: "(date \<times> nat) list \<Rightarrow> date \<Rightarrow> nat" where
  "obs_sum obs d = sum_list (map snd (filter (\<lambda>(d', _). d' = d) obs))"

text \<open>
  The observations of a chunk: for every iteration the loop makes from the cursor on, and
  every time slice of that iteration's clear mask, the date the slice is attributed to
  and the number of true pixels of the slice.
\<close>

definition slice_observations :: "date list \<Rightarrow> nat \<Rightarrow> mask3 \<Rightarrow> (date \<times> nat) list" where
  "slice_observations acquisition_list time_index clear_mask =
     map (\<lambda>(i, m). (acquisition_list ! (time_index + i), count_true m))
       (zip [0..<length clear_mask] clear_mask)"

fun chunk_observations ::
  "nat \<Rightarrow> 'r worker_env \<Rightarrow> processing_options \<Rightarrow> query \<Rightarrow> date list \<Rightarrow> 'r \<Rightarrow> 'r \<Rightarrow> string list \<Rightarrow>
   nat \<Rightarrow> (date \<times> nat) list" where
  "chunk_observations 0 env opts q acquisition_list lat_range lon_range ms time_index = []"
| "chunk_observations (Suc fuel) env opts q acquisition_list lat_range lon_range ms time_index =
     (if time_index < length acquisition_list then
        (case get_dataset_by_extent env (product q) (platform q)
                (time_range opts acquisition_list time_index) lon_range lat_range ms of
           Inl e \<Rightarrow> []
         | Inr raw \<Rightarrow>
            (case map_of raw ''cf_mask'' of
               None \<Rightarrow> []
             | Some cf \<Rightarrow>
                 slice_observations acquisition_list time_index (create_cfmask_clean_mask env cf))
            @ chunk_observations fuel env opts q acquisition_list lat_range lon_range ms
                (time_index + advance opts))
      else [])"

section \<open>Records of the store\<close>

text \<open>
  The rows of the Result and Metadata tables, with the fields the task reads or writes
  (the geographic bounds and the percentages are floats and are left out). The metadata's
  comma-separated strings are kept as lists.
\<close>

record result =
  result_pk :: nat
  result_query_id :: string
  status :: string
  scenes_processed :: nat
  total_scenes :: nat
  result_path :: string
  data_path :: string
  data_netcdf_path :: string
  result_filled_path :: string

record metadata =
  metadata_pk :: nat
  metadata_query_id :: string
  scene_count :: nat
  pixel_count :: nat
  meta_acquisition_list :: "date list"
  clean_pixels_per_acquisition :: "nat list"
  clean_pixel_count :: nat

record result_type =
  red :: string
  green :: string
  blue :: string
  fill :: string

text \<open>
  The world the task acts on: the three tables, the existing scratch directories (by
  query id), the output files written, and \<open>history\<close>, the successive versions of the
  Result row as \<^verbatim>\<open>result.save()\<close> persisted them (what a progress reader can observe).
\<close>

record world =
  queries :: "query list"
  results :: "result list"
  metadatas :: "metadata list"
  temp_dirs :: "string list"
  outputs :: "string list"
  history :: "result list"

text \<open>The in-memory Result and Metadata objects of a run, next to the world.\<close>

record run =
  world :: world
  cur_result :: result
  cur_meta :: metadata

datatype 'a flow = Next 'a | Return | Raise py_error

datatype outcome = Returned | Raised py_error

text \<open>
  The collaborators of the orchestrator: the record store's ResultType lookup, the data
  cube (product resolution, scene metadata, acquisition dates), \<open>split_task\<close>, the result of
  each dispatched chunk task as \<^verbatim>\<open>t.get()\<close> delivers it (it re-raises what the task raised),
  xarray (\<open>open_dataset\<close>, \<open>concat\<close> of a non-empty list followed by \<open>load\<close>), the coordinates
  read for the geotransform, the output writers, and the four mosaic functions of the table.
\<close>

record ('r, 'res) orch_env =
  result_type_get :: "string \<Rightarrow> string \<Rightarrow> py_error + result_type"
  resolution :: "string \<Rightarrow> py_error + 'res"
  get_scene_metadata :: "query \<Rightarrow> (nat \<times> nat) option"
  list_acquisition_dates :: "query \<Rightarrow> py_error + date list"
  split_task ::
    "'res \<Rightarrow> query \<Rightarrow> date list \<Rightarrow> processing_options \<Rightarrow>
       py_error + ('r list \<times> 'r list \<times> date list list)"
  task_get :: "nat \<Rightarrow> nat \<Rightarrow> py_error + task_value"
  open_dataset :: "string \<Rightarrow> py_error + dataset"
  concat_tiles :: "dataset \<Rightarrow> dataset list \<Rightarrow> py_error + dataset"
  geotransform :: "dataset \<Rightarrow> py_error + unit"
  save_to_geotiff :: "string \<Rightarrow> dataset \<Rightarrow> py_error + unit"
  dataset_to_netcdf :: "string \<Rightarrow> dataset \<Rightarrow> py_error + unit"
  create_rgb_png_from_tiff :: "string \<Rightarrow> string \<Rightarrow> string \<Rightarrow> nat list \<Rightarrow> py_error + unit"
  create_mosaic_iterative :: "raw_data \<Rightarrow> mask3 \<Rightarrow> dataset option \<Rightarrow> py_error + dataset"
  create_median_mosaic :: "raw_data \<Rightarrow> mask3 \<Rightarrow> dataset option \<Rightarrow> py_error + dataset"
  create_max_ndvi_mosaic :: "raw_data \<Rightarrow> mask3 \<Rightarrow> dataset option \<Rightarrow> py_error + dataset"
  create_min_ndvi_mosaic :: "raw_data \<Rightarrow> mask3 \<Rightarrow> dataset option \<Rightarrow> py_error + dataset"

definition base_result_path :: string where
  "base_result_path = ''/ui_results/custom_mosaic/''"

definition processing_algorithms :: "('r, 'res) orch_env \<Rightarrow> (string \<times> processing_options) list" where
  "processing_algorithms env =
     [(''most_recent'',
        \<lparr>time_chunks = Some 5, time_slices_per_iteration = Some 5, reverse_time = True,
         chunk_combination_method = fill_nodata,
         processing_method = create_mosaic_iterative env\<rparr>),
      (''least_recent'',
        \<lparr>time_chunks = Some 5, time_slices_per_iteration = Some 1, reverse_time = False,
         chunk_combination_method = fill_nodata,
         processing_method = create_mosaic_iterative env\<rparr>),
      (''median_pixel'',
        \<lparr>time_chunks = None, time_slices_per_iteration = None, reverse_time = False,
         chunk_combination_method = fill_nodata,
         processing_method = create_median_mosaic env\<rparr>),
      (''max_ndvi'',
        \<lparr>time_chunks = Some 5, time_slices_per_iteration = Some 5, reverse_time = False,
         chunk_combination_method = max_value,
         processing_method = create_max_ndvi_mosaic env\<rparr>),
      (''min_ndvi'',
        \<lparr>time_chunks = Some 5, time_slices_per_iteration = Some 5, reverse_time = False,
         chunk_combination_method = min_value,
         processing_method = create_min_ndvi_mosaic env\<rparr>)]"

section \<open>Record store and scratch directory operations\<close>

definition fresh_pk :: "nat list \<Rightarrow> nat" where
  "fresh_pk pks = Suc (fold max pks 0)"

text \<open>\<^verbatim>\<open>result.save()\<close>: the row with the object's key is replaced, or the object is
  inserted; the persisted version is appended to the history.\<close>

definition save_result :: "result \<Rightarrow> world \<Rightarrow> world" where
  "save_result r w =
     w\<lparr>results :=
          (if result_pk r \<in> result_pk ` set (results w)
           then map (\<lambda>x. if result_pk x = result_pk r then r else x) (results w)
           else results w @ [r]),
       history := history w @ [r]\<rparr>"

definition save_metadata :: "metadata \<Rightarrow> world \<Rightarrow> world" where
  "save_metadata m w =
     w\<lparr>metadatas :=
          (if metadata_pk m \<in> metadata_pk ` set (metadatas w)
           then map (\<lambda>x. if metadata_pk x = metadata_pk m then m else x) (metadatas w)
           else metadatas w @ [m])\<rparr>"

definition save_query :: "query \<Rightarrow> world \<Rightarrow> world" where
  "save_query q w =
     w\<lparr>queries :=
          (if pk q \<in> pk ` set (queries w)
           then map (\<lambda>x. if pk x = pk q then q else x) (queries w)
           else queries w @ [q])\<rparr>"

definition delete_query :: "query \<Rightarrow> world \<Rightarrow> world" where
  "delete_query q w = w\<lparr>queries := filter (\<lambda>x. pk x \<noteq> pk q) (queries w)\<rparr>"

definition delete_metadata :: "metadata \<Rightarrow> world \<Rightarrow> world" where
  "delete_metadata m w =
     w\<lparr>metadatas := filter (\<lambda>x. metadata_pk x \<noteq> metadata_pk m) (metadatas w)\<rparr>"

definition delete_result :: "result \<Rightarrow> world \<Rightarrow> world" where
  "delete_result r w = w\<lparr>results := filter (\<lambda>x. result_pk x \<noteq> result_pk r) (results w)\<rparr>"

text \<open>
  Modelled from the spec: \<open>Query.generate_result\<close> and \<open>Query.generate_metadata\<close> of
  \<^verbatim>\<open>sample_geo_app/models.py\<close>, which is not among the sources. The ledger is created
  at query start; as in the sibling \<^verbatim>\<open>tsm/models.py\<close> the new Result row has
  \<open>total_scenes = 0\<close>, \<open>scenes_processed = 0\<close> and status WAIT, and both rows are saved.
\<close>

definition generate_result :: "query \<Rightarrow> world \<Rightarrow> result \<times> world" where
  "generate_result q w =
     (let r = \<lparr>result_pk = fresh_pk (map result_pk (results w)), result_query_id = query_id q,
                status = ''WAIT'', scenes_processed = 0, total_scenes = 0, result_path = '''',
                data_path = '''', data_netcdf_path = '''', result_filled_path = ''''\<rparr>
      in (r, save_result r w))"

definition generate_metadata :: "query \<Rightarrow> nat \<Rightarrow> nat \<Rightarrow> world \<Rightarrow> metadata \<times> world" where
  "generate_metadata q sc pc w =
     (let m = \<lparr>metadata_pk = fresh_pk (map metadata_pk (metadatas w)),
                metadata_query_id = query_id q, scene_count = sc, pixel_count = pc,
                meta_acquisition_list = [], clean_pixels_per_acquisition = [],
                clean_pixel_count = 0\<rparr>
      in (m, save_metadata m w))"

text \<open>\<^verbatim>\<open>shutil.rmtree\<close> raises when the directory does not exist.\<close>

definition rmtree :: "string \<Rightarrow> world \<Rightarrow> py_error + world" where
  "rmtree qid w =
     (if qid \<in> set (temp_dirs w) then Inr (w\<lparr>temp_dirs := removeAll qid (temp_dirs w)\<rparr>)
      else Inl OSError)"

definition mkdir_if_missing :: "string \<Rightarrow> world \<Rightarrow> world" where
  "mkdir_if_missing qid w =
     (if qid \<in> set (temp_dirs w) then w else w\<lparr>temp_dirs := temp_dirs w @ [qid]\<rparr>)"

definition error_with_message :: "result \<Rightarrow> string \<Rightarrow> world \<Rightarrow> result \<times> world" where
  "error_with_message r message w =
     (let w1 = (if result_query_id r \<in> set (temp_dirs w)
                then w\<lparr>temp_dirs := removeAll (result_query_id r) (temp_dirs w)\<rparr> else w);
          r' = r\<lparr>status := ''ERROR'', result_path := message\<rparr>
      in (r', save_result r' w1))"

definition run_error :: "string \<Rightarrow> run \<Rightarrow> run" where
  "run_error message st =
     (case error_with_message (cur_result st) message (world st) of
        (r, w) \<Rightarrow> st\<lparr>world := w, cur_result := r\<rparr>)"

definition generic_message :: string where
  "generic_message = ''There was an exception when handling this query.''"

definition no_acquisitions_message :: string where
  "no_acquisitions_message = ''There were no acquisitions for this parameter set.''"

section \<open>Orchestrator\<close>

text \<open>The body of the loop over the tasks of one time group, for the value \<^verbatim>\<open>t.get()\<close>
  delivered.\<close>

definition consume_tile ::
  "query \<Rightarrow> (string \<times> acq_meta) list \<Rightarrow> run \<Rightarrow> py_error + task_value \<Rightarrow>
     (string \<times> acq_meta) list flow \<times> run" where
  "consume_tile query tiles st got =
     (case got of
        Inl e \<Rightarrow> (Raise e, st)
      | Inr NoneValue \<Rightarrow> (Raise TypeError, st)
      | Inr CancelValue \<Rightarrow>
         (case rmtree (query_id query) (world st) of
            Inl e \<Rightarrow> (Raise e, st)
          | Inr w \<Rightarrow>
             (Return, st\<lparr>world := delete_result (cur_result st)
                                    (delete_metadata (cur_meta st) (delete_query query w))\<rparr>))
      | Inr EmptyTile \<Rightarrow>
         (let r = (cur_result st)\<lparr>scenes_processed := scenes_processed (cur_result st) + 1\<rparr>
          in (Next tiles, st\<lparr>world := save_result r (world st), cur_result := r\<rparr>))
      | Inr (Tile p md) \<Rightarrow>
         (let r = (cur_result st)\<lparr>scenes_processed := scenes_processed (cur_result st) + 1\<rparr>
          in (Next (tiles @ [(p, md)]), st\<lparr>world := save_result r (world st), cur_result := r\<rparr>)))"

fun collect_tiles ::
  "('r, 'res) orch_env \<Rightarrow> query \<Rightarrow> nat \<Rightarrow> nat list \<Rightarrow> (string \<times> acq_meta) list \<Rightarrow> run \<Rightarrow>
     (string \<times> acq_meta) list flow \<times> run" where
  "collect_tiles env query ti [] tiles st = (Next tiles, st)"
| "collect_tiles env query ti (gi # gis) tiles st =
     (case consume_tile query tiles st (task_get env ti gi) of
        (Next tiles', st') \<Rightarrow> collect_tiles env query ti gis tiles' st'
      | (Return, st') \<Rightarrow> (Return, st')
      | (Raise e, st') \<Rightarrow> (Raise e, st'))"

text \<open>\<^verbatim>\<open>if date in acquisition_metadata: ... += n  else: ... = n\<close>.\<close>

definition merge_clean :: "date \<Rightarrow> nat \<Rightarrow> acq_meta \<Rightarrow> acq_meta" where
  "merge_clean d n am =
     (if d \<in> fst ` set am then map (\<lambda>(k, v). if k = d then (k, v + n) else (k, v)) am
      else am @ [(d, n)])"

definition merge_metadata :: "acq_meta \<Rightarrow> acq_meta \<Rightarrow> acq_meta" where
  "merge_metadata tile_metadata am = fold (\<lambda>(d, n). merge_clean d n) tile_metadata am"

fun merge_tiles ::
  "('r, 'res) orch_env \<Rightarrow> (string \<times> acq_meta) list \<Rightarrow> acq_meta \<Rightarrow> dataset list \<Rightarrow>
     py_error + (acq_meta \<times> dataset list)" where
  "merge_tiles env [] am xr_tiles = Inr (am, xr_tiles)"
| "merge_tiles env ((p, tile_metadata) # tiles) am xr_tiles =
     (case open_dataset env p of
        Inl e \<Rightarrow> Inl e
      | Inr x \<Rightarrow> merge_tiles env tiles (merge_metadata tile_metadata am) (xr_tiles @ [x]))"

text \<open>\<^verbatim>\<open>xr.concat\<close> raises ValueError on an empty sequence of datasets.\<close>

definition xr_concat :: "('r, 'res) orch_env \<Rightarrow> dataset list \<Rightarrow> py_error + dataset" where
  "xr_concat env xs = (case xs of [] \<Rightarrow> Inl ValueError | x # rest \<Rightarrow> concat_tiles env x rest)"

definition fold_group ::
  "('r, 'res) orch_env \<Rightarrow> processing_options \<Rightarrow> query \<Rightarrow> nat \<Rightarrow> nat \<Rightarrow>
     dataset option \<times> acq_meta \<Rightarrow> run \<Rightarrow> (dataset option \<times> acq_meta) flow \<times> run" where
  "fold_group env opts query n_geo ti acc st =
     (case collect_tiles env query ti [0..<n_geo] [] st of
        (Return, st') \<Rightarrow> (Return, st')
      | (Raise e, st') \<Rightarrow> (Raise e, st')
      | (Next tiles, st') \<Rightarrow>
         (case merge_tiles env tiles (snd acc) [] of
            Inl e \<Rightarrow> (Raise e, st')
          | Inr (am, xr_tiles) \<Rightarrow>
             (case xr_concat env (rev xr_tiles) of
                Inl e \<Rightarrow> (Raise e, st')
              | Inr dataset \<Rightarrow>
                 (case chunk_combination_method opts dataset (fst acc) of
                    Inl e \<Rightarrow> (Raise e, st')
                  | Inr dataset_out \<Rightarrow> (Next (Some dataset_out, am), st')))))"

fun fold_groups ::
  "('r, 'res) orch_env \<Rightarrow> processing_options \<Rightarrow> query \<Rightarrow> nat \<Rightarrow> nat list \<Rightarrow>
     dataset option \<times> acq_meta \<Rightarrow> run \<Rightarrow> (dataset option \<times> acq_meta) flow \<times> run" where
  "fold_groups env opts query n_geo [] acc st = (Next acc, st)"
| "fold_groups env opts query n_geo (ti # tis) acc st =
     (case fold_group env opts query n_geo ti acc st of
        (Next acc', st') \<Rightarrow> fold_groups env opts query n_geo tis acc' st'
      | (Return, st') \<Rightarrow> (Return, st')
      | (Raise e, st') \<Rightarrow> (Raise e, st'))"

definition count_valid :: "grid \<Rightarrow> nat" where
  "count_valid g = sum_list (map (\<lambda>row. length (filter (\<lambda>x. x \<noteq> nodata) row)) g)"

text \<open>\<^verbatim>\<open>measurements.index(name) + 1\<close>; \<open>index\<close> raises ValueError for a missing name.\<close>

definition band_number :: "string \<Rightarrow> py_error + nat" where
  "band_number name =
     (if name \<in> set measurements
      then Inr (Suc (length (takeWhile (\<lambda>x. x \<noteq> name) measurements)))
      else Inl ValueError)"

text \<open>
  Everything after the loop over the time groups: geotransform, removal of the scratch
  directory, the metadata fields, the output files, and the final versions of the Result
  and Query rows.

  Modelled from the spec: \<open>update_model_bounds_with_dataset\<close> of the application's
  \<^verbatim>\<open>utils.py\<close>, which is not among the sources, only sets the geographic bounds of the
  three records, which this model does not carry.
\<close>

definition tif_path :: "query \<Rightarrow> string" where
  "tif_path query = base_result_path @ query_id query @ ''.tif''"

definition netcdf_path :: "query \<Rightarrow> string" where
  "netcdf_path query = base_result_path @ query_id query @ ''.nc''"

definition png_path :: "query \<Rightarrow> string" where
  "png_path query = base_result_path @ query_id query @ ''.png''"

definition png_filled_path :: "query \<Rightarrow> string" where
  "png_filled_path query = base_result_path @ query_id query @ ''_filled.png''"

definition add_output :: "string \<Rightarrow> run \<Rightarrow> run" where
  "add_output p st = st\<lparr>world := (world st)\<lparr>outputs := outputs (world st) @ [p]\<rparr>\<rparr>"

definition populate_metadata :: "acq_meta \<Rightarrow> metadata \<Rightarrow> metadata" where
  "populate_metadata am m =
     (let dates = rev (sort (map fst am))
      in m\<lparr>meta_acquisition_list := meta_acquisition_list m @ dates,
           clean_pixels_per_acquisition :=
             clean_pixels_per_acquisition m @ map (clean_of am) dates\<rparr>)"

definition write_outputs ::
  "('r, 'res) orch_env \<Rightarrow> query \<Rightarrow> result_type \<Rightarrow> dataset \<Rightarrow> run \<Rightarrow> unit flow \<times> run" where
  "write_outputs env query rt dataset_out st =
     (case save_to_geotiff env (tif_path query) dataset_out of
        Inl e \<Rightarrow> (Raise e, st)
      | Inr _ \<Rightarrow>
         (let st3 = add_output (tif_path query) st in
          case dataset_to_netcdf env (netcdf_path query) dataset_out of
            Inl e \<Rightarrow> (Raise e, st3)
          | Inr _ \<Rightarrow>
             (let st4 = add_output (netcdf_path query) st3 in
              case band_number (red rt) of
                Inl e \<Rightarrow> (Raise e, st4)
              | Inr b1 \<Rightarrow>
                 (case band_number (green rt) of
                    Inl e \<Rightarrow> (Raise e, st4)
                  | Inr b2 \<Rightarrow>
                     (case band_number (blue rt) of
                        Inl e \<Rightarrow> (Raise e, st4)
                      | Inr b3 \<Rightarrow>
                         (case create_rgb_png_from_tiff env (tif_path query) (png_path query)
                                 (png_filled_path query) [b1, b2, b3] of
                            Inl e \<Rightarrow> (Raise e, st4)
                          | Inr _ \<Rightarrow>
                             (Next (), add_output (png_filled_path query)
                                         (add_output (png_path query) st4))))))))"

definition publish_result :: "query \<Rightarrow> date list \<Rightarrow> run \<Rightarrow> run" where
  "publish_result query acquisitions st =
     (let r = (cur_result st)
                \<lparr>result_path := png_path query, data_path := tif_path query,
                 data_netcdf_path := netcdf_path query,
                 result_filled_path := png_filled_path query,
                 status := ''OK'', total_scenes := length acquisitions\<rparr>
      in st\<lparr>world := save_query (query\<lparr>complete := True\<rparr>) (save_result r (world st)),
            cur_result := r\<rparr>)"

definition finalize ::
  "('r, 'res) orch_env \<Rightarrow> query \<Rightarrow> result_type \<Rightarrow> date list \<Rightarrow> dataset option \<times> acq_meta \<Rightarrow>
     run \<Rightarrow> unit flow \<times> run" where
  "finalize env query rt acquisitions acc st =
     (case fst acc of
        None \<Rightarrow> (Raise AttributeError, st)
      | Some dataset_out \<Rightarrow>
         (case geotransform env dataset_out of
            Inl e \<Rightarrow> (Raise e, st)
          | Inr _ \<Rightarrow>
             (case rmtree (query_id query) (world st) of
                Inl e \<Rightarrow> (Raise e, st)
              | Inr w1 \<Rightarrow>
                 (let m1 = populate_metadata (snd acc) (cur_meta st);
                      st1 = st\<lparr>world := w1, cur_meta := m1\<rparr>
                  in case band dataset_out (measurements ! 0) of
                       Inl e \<Rightarrow> (Raise e, st1)
                     | Inr g \<Rightarrow>
                        (let m2 = m1\<lparr>clean_pixel_count := count_valid g\<rparr>;
                             st2 = st1\<lparr>world := save_metadata m2 w1, cur_meta := m2\<rparr>
                         in case write_outputs env query rt dataset_out st2 of
                              (Raise e, st4) \<Rightarrow> (Raise e, st4)
                            | (Return, st4) \<Rightarrow> (Return, st4)
                            | (Next _, st4) \<Rightarrow>
                                (Next (), publish_result query acquisitions st4))))))"

text \<open>
  The planning of a query, inside the try block: acquisition dates, the algorithm's
  options, the product resolution and \<open>split_task\<close>. \<open>None\<close> is the early return for an
  empty acquisition list.
\<close>

definition plan_query ::
  "('r, 'res) orch_env \<Rightarrow> query \<Rightarrow>
     py_error + (date list \<times> processing_options \<times> 'r list \<times> 'r list \<times> date list list) option" where
  "plan_query env query =
     (case list_acquisition_dates env query of
        Inl e \<Rightarrow> Inl e
      | Inr acquisitions \<Rightarrow>
         if length acquisitions < 1 then Inr None
         else
          (case map_of (processing_algorithms env) (compositor query) of
             None \<Rightarrow> Inl KeyError
           | Some opts \<Rightarrow>
              (case resolution env (product query) of
                 Inl e \<Rightarrow> Inl e
               | Inr res \<Rightarrow>
                  (case split_task env res query acquisitions opts of
                     Inl e \<Rightarrow> Inl e
                   | Inr (lat_ranges, lon_ranges, time_ranges) \<Rightarrow>
                       Inr (Some (acquisitions, opts, lat_ranges, lon_ranges, time_ranges))))))"

definition try_body ::
  "('r, 'res) orch_env \<Rightarrow> query \<Rightarrow> result_type \<Rightarrow> run \<Rightarrow> unit flow \<times> run" where
  "try_body env query rt st =
     (case plan_query env query of
        Inl e \<Rightarrow> (Raise e, st)
      | Inr None \<Rightarrow> (Return, run_error no_acquisitions_message st)
      | Inr (Some (acquisitions, opts, lat_ranges, lon_ranges, time_ranges)) \<Rightarrow>
         (let st1 = st\<lparr>cur_result :=
                        (cur_result st)\<lparr>total_scenes := length time_ranges * length lat_ranges\<rparr>\<rparr>;
              st2 = st1\<lparr>world := mkdir_if_missing (query_id query) (world st1)\<rparr>
          in if time_ranges \<noteq> [] \<and> length lon_ranges < length lat_ranges
             then (Raise IndexError, st2)
             else
              (case fold_groups env opts query (length lat_ranges) [0..<length time_ranges]
                      (None, []) st2 of
                 (Return, st3) \<Rightarrow> (Return, st3)
               | (Raise e, st3) \<Rightarrow> (Raise e, st3)
               | (Next acc, st3) \<Rightarrow> finalize env query rt acquisitions acc st3)))"

text \<open>
  The task from the single matching query on: ResultType lookup, creation of the Result
  row, scene metadata, creation of the Metadata row, the try block and its handler, which
  stores the generic message and re-raises.
\<close>

definition run_query :: "('r, 'res) orch_env \<Rightarrow> query \<Rightarrow> world \<Rightarrow> outcome \<times> world" where
  "run_query env query w =
     (case result_type_get env (platform query) (query_type query) of
        Inl e \<Rightarrow> (Raised e, w)
      | Inr rt \<Rightarrow>
         (case generate_result query w of (r, w1) \<Rightarrow>
           (case get_scene_metadata env query of
              None \<Rightarrow> (Returned, snd (error_with_message r generic_message w1))
            | Some (sc, pc) \<Rightarrow>
               (case generate_metadata query sc pc w1 of (m, w2) \<Rightarrow>
                 (case try_body env query rt \<lparr>world = w2, cur_result = r, cur_meta = m\<rparr> of
                    (Raise e, st) \<Rightarrow> (Raised e, world (run_error generic_message st))
                  | (Return, st) \<Rightarrow> (Returned, world st)
                  | (Next _, st) \<Rightarrow> (Returned, world st))))))"

definition create_cloudfree_mosaic ::
  "('r, 'res) orch_env \<Rightarrow> string \<Rightarrow> string \<Rightarrow> world \<Rightarrow> outcome \<times> world" where
  "create_cloudfree_mosaic env qid uid w =
     (let matching = filter (\<lambda>q. query_id q = qid \<and> user_id q = uid) (queries w) in
      if length matching > 1 then
        (if length (filter (\<lambda>r. result_query_id r = qid) (results w)) > 0
         then (Returned,
               w\<lparr>queries := map (\<lambda>q. if query_id q = qid \<and> user_id q = uid
                                      then q\<lparr>complete := True\<rparr> else q) (queries w)\<rparr>)
         else (Returned, w))
      else
        (case matching of
           [] \<Rightarrow> (Raised IndexError, w)
         | query # _ \<Rightarrow> run_query env query w))"

section \<open>Properties of the combination strategies\<close>

lemma bind_err_Inr [simp]: "bind_err (Inr x) f = f x"
  by (simp add: bind_err_def)

lemma bind_err_Inl [simp]: "bind_err (Inl e) f = Inl e"
  by (simp add: bind_err_def)

lemma shape_eq_mask [simp]: "shape (eq_mask g v) = shape g"
  by (simp add: shape_def eq_mask_def comp_def)

lemma shape_length: "shape a = shape b \<Longrightarrow> length a = length b"
  unfolding shape_def by (rule map_eq_imp_length_eq)

lemma shape_nth: "shape a = shape b \<Longrightarrow> i < length a \<Longrightarrow> length (a ! i) = length (b ! i)"
proof -
  assume h: "shape a = shape b" and i: "i < length a"
  have "length b = length a" using h shape_length by metis
  then have "map length a ! i = length (a ! i)" "map length b ! i = length (b ! i)"
    using i by simp_all
  then show ?thesis using h by (simp add: shape_def)
qed

lemma shape_pick_grid:
  "shape m = shape t \<Longrightarrow> shape m = shape s \<Longrightarrow> shape (pick_grid m t s) = shape t"
proof -
  assume mt: "shape m = shape t" and ms: "shape m = shape s"
  have l: "length m = length t" "length m = length s"
    using mt ms shape_length by blast+
  show ?thesis
  proof (rule nth_equalityI)
    show "length (shape (pick_grid m t s)) = length (shape t)"
      using l by (simp add: shape_def pick_grid_def)
  next
    fix i assume "i < length (shape (pick_grid m t s))"
    then have i: "i < length t" using l by (simp add: shape_def pick_grid_def)
    have "length (m ! i) = length (t ! i)" "length (m ! i) = length (s ! i)"
      using shape_nth[OF mt] shape_nth[OF ms] i l by simp_all
    then show "shape (pick_grid m t s) ! i = shape t ! i"
      using i l by (simp add: shape_def pick_grid_def select_row_def)
  qed
qed

lemma pick_grid_nth:
  assumes mt: "shape m = shape t" and ms: "shape m = shape s"
    and i: "i < length t" and j: "j < length (t ! i)"
  shows "pick_grid m t s ! i ! j = (if m ! i ! j then s ! i ! j else t ! i ! j)"
proof -
  have l: "length m = length t" "length m = length s"
    using mt ms shape_length by blast+
  have r: "length (m ! i) = length (t ! i)" "length (m ! i) = length (s ! i)"
    using shape_nth[OF mt] shape_nth[OF ms] i l by simp_all
  show ?thesis using i j l r by (simp add: pick_grid_def select_row_def)
qed

lemma masked_assign_ok:
  "shape m = shape t \<Longrightarrow> shape m = shape s \<Longrightarrow> masked_assign m t s = Inr (pick_grid m t s)"
  by (simp add: masked_assign_def pick_grid_def)

lemma map_of_set_band:
  "map_of (set_band key g ds) k = (if k = key then map_option (\<lambda>_. g) (map_of ds k) else map_of ds k)"
  by (induction ds) (auto simp: set_band_def)

lemma fst_set_band [simp]: "map fst (set_band key g ds) = map fst ds"
  by (induction ds) (auto simp: set_band_def)

lemma band_Some: "map_of ds k = Some g \<Longrightarrow> band ds k = Inr g"
  by (simp add: band_def)


lemma fill_loop_closed:
  assumes "distinct ks" and "distinct (map fst out)"
    and "\<forall>k\<in>set ks. \<exists>d g. map_of ds k = Some d \<and> map_of out k = Some g \<and> shape d = shape g"
  shows "fill_loop ds ks out =
     Inr (map (\<lambda>(k, g). if k \<in> set ks then (k, fill_grid g (the (map_of ds k))) else (k, g)) out)"
  using assms
proof (induction ks arbitrary: out)
  case Nil
  then show ?case by (simp add: case_prod_unfold)
next
  case (Cons key keys)
  from Cons.prems obtain d g where d: "map_of ds key = Some d" and g: "map_of out key = Some g"
    and sh: "shape d = shape g" by auto
  let ?out = "set_band key (fill_grid g d) out"
  have step: "fill_loop ds (key # keys) out = fill_loop ds keys ?out"
    using d g sh by (simp add: band_Some masked_assign_ok fill_grid_def)
  have p1: "distinct keys" and nk: "key \<notin> set keys" using Cons.prems by auto
  have p2: "distinct (map fst ?out)" using Cons.prems by simp
  have p3: "\<forall>k\<in>set keys. \<exists>d g. map_of ds k = Some d \<and> map_of ?out k = Some g \<and> shape d = shape g"
    using Cons.prems(3) nk by (auto simp: map_of_set_band)
  have "fill_loop ds keys ?out =
     Inr (map (\<lambda>(k, g). if k \<in> set keys then (k, fill_grid g (the (map_of ds k))) else (k, g)) ?out)"
    by (rule Cons.IH[OF p1 p2 p3])
  also have "map (\<lambda>(k, g). if k \<in> set keys then (k, fill_grid g (the (map_of ds k))) else (k, g)) ?out
      = map (\<lambda>(k, g). if k \<in> set (key # keys) then (k, fill_grid g (the (map_of ds k))) else (k, g)) out"
  proof -
    have "\<And>k h. (k, h) \<in> set out \<Longrightarrow> k = key \<Longrightarrow> h = g"
      using g Cons.prems(2) by (metis map_of_is_SomeI option.inject)
    then show ?thesis using nk d
      by (auto simp: set_band_def)
  qed
  finally show ?case using step by simp
qed

lemma map_of_map_keyed:
  "map_of (map (\<lambda>(k, g). (k, f k g)) xs) k = map_option (f k) (map_of xs k)"
  by (induction xs) auto

lemma compatible_lookup:
  "compatible ds cur \<Longrightarrow> map_of cur k = Some g \<Longrightarrow> \<exists>d. map_of ds k = Some d \<and> shape d = shape g"
proof -
  assume c: "compatible ds cur" and g: "map_of cur k = Some g"
  have "(k, g) \<in> set cur" using g by (rule map_of_SomeD)
  then have "case map_of ds k of None \<Rightarrow> False | Some d \<Rightarrow> shape d = shape g"
    using c by (auto simp: compatible_def list_all_iff)
  then show ?thesis by (cases "map_of ds k") simp_all
qed

lemma fill_nodata_closed:
  assumes c: "compatible ds cur"
  shows "fill_nodata ds (Some cur) = Inr (map (\<lambda>(k, g). (k, fill_grid g (the (map_of ds k)))) cur)"
proof -
  have d: "distinct (map fst cur)" using c by (simp add: compatible_def)
  have "\<forall>k\<in>set (map fst cur). \<exists>d g. map_of ds k = Some d \<and> map_of cur k = Some g \<and> shape d = shape g"
  proof
    fix k assume "k \<in> set (map fst cur)"
    then obtain g where "map_of cur k = Some g"
      by (metis (no_types) map_of_eq_None_iff not_Some_eq set_map)
    then show "\<exists>d g. map_of ds k = Some d \<and> map_of cur k = Some g \<and> shape d = shape g"
      using compatible_lookup[OF c] by blast
  qed
  then have "fill_loop ds (map fst cur) cur =
     Inr (map (\<lambda>(k, g). if k \<in> set (map fst cur) then (k, fill_grid g (the (map_of ds k))) else (k, g)) cur)"
    using fill_loop_closed[OF d d] by blast
  also have "map (\<lambda>(k, g). if k \<in> set (map fst cur) then (k, fill_grid g (the (map_of ds k))) else (k, g)) cur
     = map (\<lambda>(k, g). (k, fill_grid g (the (map_of ds k)))) cur"
    by (rule map_cong) force+
  finally show ?thesis by (simp add: fill_nodata_def)
qed

text \<open>
  Claim C5. \<open>fill_nodata\<close> with no intermediate returns the new dataset; with an
  intermediate whose bands the new dataset carries in the same shape, it returns a dataset
  with the intermediate's bands in which every pixel of every band is the intermediate's
  value unless that value is the nodata sentinel -9999, and the new dataset's value at that
  position if it is.
\<close>

theorem fill_nodata_pixels:
  assumes c: "compatible ds cur"
  shows "fill_nodata ds None = Inr ds \<and>
    (\<exists>out. fill_nodata ds (Some cur) = Inr out \<and> map fst out = map fst cur \<and>
      (\<forall>k g d. map_of cur k = Some g \<and> map_of ds k = Some d \<longrightarrow>
        (\<exists>r. map_of out k = Some r \<and> shape r = shape g \<and>
          (\<forall>i j. i < length g \<and> j < length (g ! i) \<longrightarrow>
             r ! i ! j = (if g ! i ! j = nodata then d ! i ! j else g ! i ! j)))))"
proof (intro conjI exI allI impI)
  let ?out = "map (\<lambda>(k, g). (k, fill_grid g (the (map_of ds k)))) cur"
  show "fill_nodata ds None = Inr ds" by (simp add: fill_nodata_def)
  show "fill_nodata ds (Some cur) = Inr ?out" by (rule fill_nodata_closed[OF c])
  show "map fst ?out = map fst cur" by (simp add: case_prod_unfold comp_def)
  fix k g d assume h: "map_of cur k = Some g \<and> map_of ds k = Some d"
  then have sh: "shape d = shape g" using compatible_lookup[OF c] by fastforce
  show "map_of ?out k = Some (fill_grid g d)"
    using h by (simp add: map_of_map_keyed)
  show "shape (fill_grid g d) = shape g"
    using sh by (simp add: fill_grid_def shape_pick_grid)
  fix i j assume ij: "i < length g \<and> j < length (g ! i)"
  then have "fill_grid g d ! i ! j = (if eq_mask g nodata ! i ! j then d ! i ! j else g ! i ! j)"
    using sh by (simp add: fill_grid_def pick_grid_nth)
  moreover have "eq_mask g nodata ! i ! j = (g ! i ! j = nodata)"
    using ij by (simp add: eq_mask_def)
  ultimately show "fill_grid g d ! i ! j = (if g ! i ! j = nodata then d ! i ! j else g ! i ! j)"
    by simp
qed

theorem fill_nodata_pixels_witness:
  "compatible [(''blue'', [[7, 8], [9, 10]])] [(''blue'', [[- 9999, 3], [4, - 9999]])] \<and>
   fill_nodata [(''blue'', [[7, 8], [9, 10]])] (Some [(''blue'', [[- 9999, 3], [4, - 9999]])])
     = Inr [(''blue'', [[7, 3], [4, 10]])]"
  using fill_nodata_pixels[of "[(''blue'', [[7, 8], [9, 10]])]" "[(''blue'', [[- 9999, 3], [4, - 9999]])]"]
  by (simp add: compatible_def shape_def fill_nodata_def band_def masked_assign_def eq_mask_def
      nodata_def select_row_def set_band_def)














lemmas eval_comb = fold_pair_def max_value_def min_value_def band_def attr_band_def cmp_mask_def
  masked_assign_def shape_def select_row_def set_band_def aligned_def



text \<open>
  With ndvi before another band, the mask of the later band is computed from the ndvi
  band already overwritten, and the later band keeps the current value.
\<close>

lemma band_order_slip:
  "fold_pair max_value [(''ndvi'', [[1]]), (''red'', [[10]])] [(''ndvi'', [[2]]), (''red'', [[20]])]
     = Inr [(''ndvi'', [[2]]), (''red'', [[10]])]"
  by (simp add: eval_comb)

section \<open>Properties of the chunk worker\<close>

lemma clean_of_add_clean:
  "clean_of (add_clean t c md) d = clean_of md d + (if t = d then c else 0)"
proof -
  have m: "\<And>xs. map_of (map (\<lambda>(k, v). if k = t then (k, v + c) else (k, v)) xs) d
      = (if d = t then map_option (\<lambda>v. v + c) (map_of xs d) else map_of xs d)"
  proof -
    fix xs :: acq_meta
    show "map_of (map (\<lambda>(k, v). if k = t then (k, v + c) else (k, v)) xs) d
      = (if d = t then map_option (\<lambda>v. v + c) (map_of xs d) else map_of xs d)"
      by (induction xs) auto
  qed
  show ?thesis
  proof (cases "t \<in> fst ` set md")
    case True
    then obtain v where "map_of md t = Some v"
      by (metis map_of_eq_None_iff not_Some_eq)
    then show ?thesis using True by (auto simp: add_clean_def clean_of_def m)
  next
    case False
    then have "map_of md t = None" by (simp add: map_of_eq_None_iff)
    then show ?thesis using False
      by (auto simp: add_clean_def clean_of_def m map_add_def split: option.splits)
  qed
qed

lemma obs_sum_append [simp]: "obs_sum (a @ b) d = obs_sum a d + obs_sum b d"
  by (simp add: obs_sum_def)

lemma obs_sum_Nil [simp]: "obs_sum [] d = 0"
  by (simp add: obs_sum_def)

lemma obs_sum_Cons [simp]: "obs_sum ((t, c) # obs) d = (if t = d then c else 0) + obs_sum obs d"
  by (simp add: obs_sum_def)

lemma tally_mask_sum:
  "tally_mask acqs ti ms ts md = Inr md' \<Longrightarrow>
     clean_of md' d = clean_of md d +
       obs_sum (map (\<lambda>(i, m). (acqs ! (ti + ts + i), count_true m)) (zip [0..<length ms] ms)) d"
proof (induction ms arbitrary: ts md)
  case Nil
  then show ?case by simp
next
  case (Cons m ms)
  from Cons.prems have inr: "ti + ts < length acqs"
    and rec: "tally_mask acqs ti ms (Suc ts) (add_clean (acqs ! (ti + ts)) (count_true m) md) = Inr md'"
    by (auto split: if_splits)
  have z: "zip [0..<length (m # ms)] (m # ms) = (0, m) # zip (map Suc [0..<length ms]) ms"
    by (simp add: upt_conv_Cons map_Suc_upt del: upt_Suc)
  have sh: "map (\<lambda>(i, m). (acqs ! (ti + ts + i), count_true m)) (zip (map Suc [0..<length ms]) ms)
      = map (\<lambda>(i, m). (acqs ! (ti + Suc ts + i), count_true m)) (zip [0..<length ms] ms)"
    by (simp add: zip_map1 case_prod_unfold comp_def)
  have "clean_of md' d = clean_of (add_clean (acqs ! (ti + ts)) (count_true m) md) d +
       obs_sum (map (\<lambda>(i, m). (acqs ! (ti + Suc ts + i), count_true m)) (zip [0..<length ms] ms)) d"
    by (rule Cons.IH[OF rec])
  then show ?case unfolding z by (simp add: clean_of_add_clean sh del: upt_Suc)
qed

lemma tally_mask_observations:
  "tally_mask acqs ti ms 0 md = Inr md' \<Longrightarrow>
     clean_of md' d = clean_of md d + obs_sum (slice_observations acqs ti ms) d"
  using tally_mask_sum[of acqs ti ms 0 md md' d] by (simp add: slice_observations_def)

lemma chunk_loop_tally:
  "chunk_loop fuel env opts q acqs lat lon ms k ti data md = Some (Inr (Exit data' md')) \<Longrightarrow>
     clean_of md' d = clean_of md d + obs_sum (chunk_observations fuel env opts q acqs lat lon ms ti) d"
proof (induction fuel arbitrary: k ti data md)
  case 0
  then show ?case by (simp add: chunk_loop.simps split: if_splits)
next
  case (Suc fuel)
  show ?case
  proof (cases "ti < length acqs")
    case False
    then show ?thesis using Suc.prems by (simp add: chunk_loop.simps)
  next
    case True
    from Suc.prems True obtain status where st: "poll env k = Row status" "status \<noteq> ''CANCEL''"
      by (auto simp: chunk_loop.simps[of "Suc fuel"] split: poll_result.splits if_splits)
    from Suc.prems True st obtain raw where raw:
      "get_dataset_by_extent env (product q) (platform q) (time_range opts acqs ti) lon lat ms = Inr raw"
      by (auto simp: chunk_loop.simps[of "Suc fuel"] split: sum.splits)
    show ?thesis
    proof (cases "map_of raw ''cf_mask''")
      case None
      then have "chunk_loop fuel env opts q acqs lat lon ms (Suc k) (ti + advance opts) data md
          = Some (Inr (Exit data' md'))"
        using Suc.prems True st raw by (simp add: chunk_loop.simps[of "Suc fuel"])
      from Suc.IH[OF this] show ?thesis using True raw None by simp
    next
      case (Some cf)
      let ?cm = "create_cfmask_clean_mask env cf"
      from Suc.prems True st raw Some obtain md1 where md1: "tally_mask acqs ti ?cm 0 md = Inr md1"
        by (auto simp: chunk_loop.simps[of "Suc fuel"] Let_def split: sum.splits)
      from Suc.prems True st raw Some md1 obtain d1 where
        rec: "chunk_loop fuel env opts q acqs lat lon ms (Suc k) (ti + advance opts) (Some d1) md1
          = Some (Inr (Exit data' md'))"
        by (auto simp: chunk_loop.simps[of "Suc fuel"] Let_def split: sum.splits)
      have "clean_of md1 d = clean_of md d + obs_sum (slice_observations acqs ti ?cm) d"
        by (rule tally_mask_observations[OF md1])
      then show ?thesis using Suc.IH[OF rec] True raw Some by simp
    qed
  qed
qed




text \<open>
  Claim C4. With \<open>time_slices_per_iteration\<close> unset the cursor advances by 10000, not to the
  end of the list: on 10001 acquisitions the loop makes a second iteration (here its
  cancellation check ends the run), on 10000 it makes one.
\<close>

lemma unset_slices_advance: "time_slices_per_iteration opts = None \<Longrightarrow> advance opts = 10000"
  by (simp add: advance_def)

theorem unset_slices_second_iteration:
  "generate_TOOL_chunk (Suc (Suc 0))
     \<lparr>poll = (\<lambda>k. if k = 0 then Row ''WAIT'' else Row ''CANCEL''),
      get_dataset_by_extent = (\<lambda>_ _ _ _ _ _. Inr [(''cf_mask'', [])]),
      create_cfmask_clean_mask = (\<lambda>_. [])\<rparr> 0 0
     \<lparr>time_chunks = None, time_slices_per_iteration = None, reverse_time = False,
      chunk_combination_method = fill_nodata, processing_method = (\<lambda>_ _ _. Inr [])\<rparr>
     \<lparr>pk = 1, query_id = ''q'', user_id = ''u'', platform = ''LANDSAT_7'', product = ''ls7'',
      query_type = ''true_color'', compositor = ''median_pixel'', complete = False\<rparr>
     (map int [0..<10001]) () () measurements \<lparr>dirs = [''q''], files = []\<rparr>
   = Some (Inr CancelValue, \<lparr>dirs = [''q''], files = []\<rparr>) \<and>
   generate_TOOL_chunk (Suc (Suc 0))
     \<lparr>poll = (\<lambda>k. if k = 0 then Row ''WAIT'' else Row ''CANCEL''),
      get_dataset_by_extent = (\<lambda>_ _ _ _ _ _. Inr [(''cf_mask'', [])]),
      create_cfmask_clean_mask = (\<lambda>_. [])\<rparr> 0 0
     \<lparr>time_chunks = None, time_slices_per_iteration = None, reverse_time = False,
      chunk_combination_method = fill_nodata, processing_method = (\<lambda>_ _ _. Inr [])\<rparr>
     \<lparr>pk = 1, query_id = ''q'', user_id = ''u'', platform = ''LANDSAT_7'', product = ''ls7'',
      query_type = ''true_color'', compositor = ''median_pixel'', complete = False\<rparr>
     (map int [0..<10000]) () () measurements \<lparr>dirs = [''q''], files = []\<rparr>
   = Some (Inr (Tile (geo_chunk_path ''q'' 0 0) []),
           \<lparr>dirs = [''q''], files = [(geo_chunk_path ''q'' 0 0, [])]\<rparr>)"
  by (simp add: generate_TOOL_chunk_def chunk_loop.simps advance_def finish_chunk_def to_netcdf_def)

end
